theory Spec2Isabelle
  imports Complex_Main
begin

section \<open>Text, as Python has it\<close>

text \<open>
  A Python \<open>str\<close> is a sequence of Unicode code points, so text is a list of code points
  (\<open>nat\<close>); \<open>length\<close> counts what Python's \<open>len\<close> counts. The lexicon of the converter is
  Russian: its keys are written here by code point, with a transliteration beside each.
  ASCII literals of the source are written \<open>asc ''...''\<close>.

  Three tables of the Python runtime are needed and are written out for the scripts the
  converter's lexicon uses:
  \<^item> \<open>is_space\<close>: the code points \<open>str.strip()\<close> removes and the pattern class \<open>\s\<close> accepts
    (the complete table of \<open>str.isspace\<close>);
  \<^item> \<open>is_digit\<close>: the pattern class \<open>\d\<close>, for the ASCII digits (decimal digits of other
    scripts are not in the model);
  \<^item> \<open>lower_char\<close>: \<open>str.lower()\<close> on Basic Latin and on the Cyrillic capitals
    U+0400..U+042F; every other code point is left as it is.
\<close>

type_synonym ustr = "nat list"

definition asc :: "string \<Rightarrow> ustr" where
  "asc s = map of_char s"

definition is_digit :: "nat \<Rightarrow> bool" where
  "is_digit c = (48 \<le> c \<and> c \<le> 57)"

definition is_space :: "nat \<Rightarrow> bool" where
  "is_space c =
     ((9 \<le> c \<and> c \<le> 13) \<or> (28 \<le> c \<and> c \<le> 32) \<or> c = 133 \<or> c = 160 \<or> c = 5760 \<or>
      (8192 \<le> c \<and> c \<le> 8202) \<or> c = 8232 \<or> c = 8233 \<or> c = 8239 \<or> c = 8287 \<or> c = 12288)"

definition lower_char :: "nat \<Rightarrow> nat" where
  "lower_char c =
     (if 65 \<le> c \<and> c \<le> 90 then c + 32
      else if 1040 \<le> c \<and> c \<le> 1071 then c + 32
      else if 1024 \<le> c \<and> c \<le> 1039 then c + 80
      else c)"

definition py_lower :: "ustr \<Rightarrow> ustr" where
  "py_lower s = map lower_char s"

definition strip_chars :: "(nat \<Rightarrow> bool) \<Rightarrow> ustr \<Rightarrow> ustr" where
  "strip_chars p s = rev (dropWhile p (rev (dropWhile p s)))"

definition py_strip :: "ustr \<Rightarrow> ustr" where
  "py_strip s = strip_chars is_space s"

fun split_on :: "nat \<Rightarrow> ustr \<Rightarrow> ustr list" where
  "split_on d [] = [[]]"
| "split_on d (c # s) =
     (if c = d then [] # split_on d s
      else (case split_on d s of [] \<Rightarrow> [[c]] | r # rs \<Rightarrow> (c # r) # rs))"


definition startswith :: "ustr \<Rightarrow> ustr \<Rightarrow> bool" where
  "startswith s p = (take (length p) s = p)"

text \<open>\<open>contains k s\<close> is Python's \<open>k in s\<close> on strings: \<open>k\<close> occurs in \<open>s\<close> as a substring.\<close>

fun contains :: "ustr \<Rightarrow> ustr \<Rightarrow> bool" where
  "contains k [] = (k = [])"
| "contains k (c # s) = (startswith (c # s) k \<or> contains k s)"

definition replace_char :: "nat \<Rightarrow> nat \<Rightarrow> ustr \<Rightarrow> ustr" where
  "replace_char a b s = map (\<lambda>c. if c = a then b else c) s"

subsection \<open>Numbers from text, numbers to text\<close>

datatype py_error = ValueError | TypeError | AttributeError | KeyError

definition digits_value :: "ustr \<Rightarrow> nat" where
  "digits_value s = foldl (\<lambda>a c. 10 * a + (c - 48)) 0 s"

text \<open>
  \<open>int(s)\<close> on a run of digits; any other text is reported as \<open>ValueError\<close> (Python accepts
  a sign and surrounding blanks too, which the callers never pass). Python's integers are
  unbounded, so the result is an \<open>int\<close>; the interpreter's configurable limit on the length
  of a digit string it converts is not part of the model.
\<close>

definition py_int :: "ustr \<Rightarrow> py_error + int" where
  "py_int s = (if s \<noteq> [] \<and> list_all is_digit s then Inr (int (digits_value s)) else Inl ValueError)"

text \<open>
  \<open>float(s)\<close> on the plain decimal forms \<open>12\<close>, \<open>12.\<close>, \<open>12.5\<close> and \<open>.5\<close>; any other text is
  reported as \<open>ValueError\<close>. The value is the exact rational the text denotes: Python rounds
  it to the nearest double, which is the same number for the integers and halves of the
  examples below.
\<close>

definition py_float :: "ustr \<Rightarrow> py_error + rat" where
  "py_float s =
     (let ip = takeWhile is_digit s in
      case dropWhile is_digit s of
        [] \<Rightarrow> if ip = [] then Inl ValueError else Inr (of_nat (digits_value ip))
      | c # fp \<Rightarrow>
          if c = 46 \<and> list_all is_digit fp \<and> (ip \<noteq> [] \<or> fp \<noteq> [])
          then Inr (of_nat (digits_value ip) + of_nat (digits_value fp) / 10 ^ length fp)
          else Inl ValueError)"

fun decimal :: "nat \<Rightarrow> ustr" where
  "decimal n = (if n < 10 then [48 + n] else decimal (n div 10) @ [48 + n mod 10])"

declare decimal.simps [simp del]

text \<open>The format specifications \<open>{index:04d}\<close> and \<open>{index:02d}\<close>: decimal, zero-padded to a width.\<close>

definition format_0d :: "nat \<Rightarrow> nat \<Rightarrow> ustr" where
  "format_0d w n = replicate (w - length (decimal n)) 48 @ decimal n"

section \<open>Regular expressions\<close>

text \<open>
  The patterns of the source are regular expressions run by Python's backtracking matcher.
  \<open>rx_run r s\<close> lists every way \<open>r\<close> matches a prefix of \<open>s\<close>, in the order the backtracking
  matcher tries them (greedy repetition: longer first), each with the groups it captured
  and the text that is left. The first entry is the match Python reports.
\<close>

datatype rx = Eps | Sym "nat \<Rightarrow> bool" | Cat rx rx | Opt rx | Star rx | Grp nat rx

type_synonym caps = "(nat \<times> ustr) list"

fun rx_run :: "rx \<Rightarrow> ustr \<Rightarrow> (caps \<times> ustr) list" where
  "rx_run Eps s = [([], s)]"
| "rx_run (Sym p) [] = []"
| "rx_run (Sym p) (c # s) = (if p c then [([], s)] else [])"
| "rx_run (Cat a b) s =
     concat (map (\<lambda>(g1, s1). map (\<lambda>(g2, s2). (g1 @ g2, s2)) (rx_run b s1)) (rx_run a s))"
| "rx_run (Opt a) s = rx_run a s @ [([], s)]"
| "rx_run (Star a) s =
     concat (map (\<lambda>(g1, s1).
        if length s1 < length s
        then map (\<lambda>(g2, s2). (g1 @ g2, s2)) (rx_run (Star a) s1)
        else []) (rx_run a s)) @ [([], s)]"
| "rx_run (Grp n a) s =
     map (\<lambda>(g, s1). ((n, take (length s - length s1) s) # g, s1)) (rx_run a s)"

text \<open>
  The equation for \<open>Star\<close> unfolds into itself, so it is not a default rewrite rule; it is
  named where a concrete text is evaluated.
\<close>

declare rx_run.simps(6) [simp del]

definition rx_plus :: "rx \<Rightarrow> rx" where
  "rx_plus a = Cat a (Star a)"

fun rx_seq :: "rx list \<Rightarrow> rx" where
  "rx_seq [] = Eps"
| "rx_seq [a] = a"
| "rx_seq (a # b # r) = Cat a (rx_seq (b # r))"

definition rx_chr :: "nat \<Rightarrow> rx" where
  "rx_chr c = Sym (\<lambda>x. x = c)"

definition rx_lit :: "ustr \<Rightarrow> rx" where
  "rx_lit s = rx_seq (map rx_chr s)"

definition rx_digit :: rx where "rx_digit = Sym is_digit"
definition rx_space :: rx where "rx_space = Sym is_space"

text \<open>\<open>.\<close> accepts every code point but the newline.\<close>

definition rx_any :: rx where "rx_any = Sym (\<lambda>c. c \<noteq> 10)"

definition rx_one_of :: "nat list \<Rightarrow> rx" where
  "rx_one_of cs = Sym (\<lambda>c. c \<in> set cs)"

text \<open>\<open>re.match\<close>: the first match at the start of the text, with what follows it.\<close>

definition re_match :: "rx \<Rightarrow> ustr \<Rightarrow> (caps \<times> ustr) option" where
  "re_match r s = (case rx_run r s of [] \<Rightarrow> None | m # _ \<Rightarrow> Some m)"

text \<open>\<open>re.search\<close>: the first match at the leftmost position that has one.\<close>

fun re_search :: "rx \<Rightarrow> ustr \<Rightarrow> caps option" where
  "re_search r [] = map_option fst (re_match r [])"
| "re_search r (c # s) =
     (case re_match r (c # s) of None \<Rightarrow> re_search r s | Some m \<Rightarrow> Some (fst m))"

text \<open>
  \<open>re.sub('^...', '', s)\<close>: the pattern is anchored at the start of the text and every
  pattern so used consumes at least one code point, so at most one match, at position 0,
  is removed.
\<close>

definition re_sub_prefix :: "rx \<Rightarrow> ustr \<Rightarrow> ustr" where
  "re_sub_prefix r s = (case re_match r s of None \<Rightarrow> s | Some m \<Rightarrow> snd m)"

text \<open>\<open>match.group(n)\<close>: \<open>None\<close> when the group took no part in the match.\<close>

definition match_group :: "caps \<Rightarrow> nat \<Rightarrow> ustr option" where
  "match_group g n = map_of g n"

subsection \<open>The words a pattern accepts\<close>







section \<open>Lexicon tables\<close>

text \<open>
  The tables are Python dictionaries, read in insertion order by the loops below, so each is
  an association list in the order the source writes it.
\<close>

definition UNIT_MAPPING :: "(ustr \<times> ustr \<times> rat) list" where
  "UNIT_MAPPING = [
     ([1082, 1075], asc ''kg'', 1000),   \<comment> \<open>kg\<close>
     ([1082, 1080, 1083, 1086, 1075, 1088, 1072, 1084, 1084], asc ''kg'', 1000),   \<comment> \<open>kilogramm\<close>
     ([1075], asc ''g'', 1),   \<comment> \<open>g\<close>
     ([1075, 1088], asc ''g'', 1),   \<comment> \<open>gr\<close>
     ([1075, 1088, 1072, 1084, 1084], asc ''g'', 1),   \<comment> \<open>gramm\<close>
     ([1084, 1075], asc ''mg'', 1),   \<comment> \<open>mg\<close>
     ([1083], asc ''l'', 1000),   \<comment> \<open>l\<close>
     ([1083, 1080, 1090, 1088], asc ''l'', 1000),   \<comment> \<open>litr\<close>
     ([1084, 1083], asc ''ml'', 1),   \<comment> \<open>ml\<close>
     ([1084, 1080, 1083, 1083, 1080, 1083, 1080, 1090, 1088], asc ''ml'', 1),   \<comment> \<open>millilitr\<close>
     ([1095, 46, 1083, 46], asc ''tsp'', 5),   \<comment> \<open>ch.l.\<close>
     ([1095, 46, 1083, 1086, 1078, 1082, 1072], asc ''tsp'', 5),   \<comment> \<open>ch.lozhka\<close>
     ([1095, 1072, 1081, 1085, 1072, 1103, 32, 1083, 1086, 1078, 1082, 1072], asc ''tsp'', 5),   \<comment> \<open>chajnaja lozhka\<close>
     ([1089, 1090, 46, 1083, 46], asc ''tbsp'', 15),   \<comment> \<open>st.l.\<close>
     ([1089, 1090, 46, 1083, 1086, 1078, 1082, 1072], asc ''tbsp'', 15),   \<comment> \<open>st.lozhka\<close>
     ([1089, 1090, 1086, 1083, 1086, 1074, 1072, 1103, 32, 1083, 1086, 1078, 1082, 1072], asc ''tbsp'', 15),   \<comment> \<open>stolovaja lozhka\<close>
     ([1089, 1090, 1072, 1082, 1072, 1085], asc ''cup'', 240),   \<comment> \<open>stakan\<close>
     ([1089, 1090, 1072, 1082], asc ''cup'', 240),   \<comment> \<open>stak\<close>
     ([1096, 1090], asc ''pcs'', 1),   \<comment> \<open>sht\<close>
     ([1096, 1090, 1091, 1082], asc ''pcs'', 1),   \<comment> \<open>shtuk\<close>
     ([1096, 1090, 1091, 1082, 1072], asc ''pcs'', 1),   \<comment> \<open>shtuka\<close>
     ([1096, 1090, 1091, 1082, 1080], asc ''pcs'', 1),   \<comment> \<open>shtuki\<close>
     ([1097, 1077, 1087, 1086, 1090, 1082, 1072], asc ''pinch'', 1 / 2),   \<comment> \<open>shhepotka\<close>
     ([1097, 1077, 1087, 1086, 1090], asc ''pinch'', 1 / 2),   \<comment> \<open>shhepot\<close>
     ([1087, 1086, 32, 1074, 1082, 1091, 1089, 1091], asc ''to-taste'', 0),   \<comment> \<open>po vkusu\<close>
     ([1074, 1082, 1091, 1089], asc ''to-taste'', 0)    \<comment> \<open>vkus\<close>
   ]"

definition ALLERGEN_KEYWORDS :: "(ustr \<times> ustr list) list" where
  "ALLERGEN_KEYWORDS = [
     (asc ''milk'',   \<comment> \<open>moloko, slivki, smetana, jogurt, kefir, tvorog, syr, maslo slivochnoe\<close>
      [[1084, 1086, 1083, 1086, 1082, 1086],
       [1089, 1083, 1080, 1074, 1082, 1080],
       [1089, 1084, 1077, 1090, 1072, 1085, 1072],
       [1081, 1086, 1075, 1091, 1088, 1090],
       [1082, 1077, 1092, 1080, 1088],
       [1090, 1074, 1086, 1088, 1086, 1075],
       [1089, 1099, 1088],
       [1084, 1072, 1089, 1083, 1086, 32, 1089, 1083, 1080, 1074, 1086, 1095, 1085, 1086, 1077]]),
     (asc ''lactose'',   \<comment> \<open>moloko, slivki, smetana, jogurt, kefir\<close>
      [[1084, 1086, 1083, 1086, 1082, 1086],
       [1089, 1083, 1080, 1074, 1082, 1080],
       [1089, 1084, 1077, 1090, 1072, 1085, 1072],
       [1081, 1086, 1075, 1091, 1088, 1090],
       [1082, 1077, 1092, 1080, 1088]]),
     (asc ''eggs'',   \<comment> \<open>jajco, jajca, zheltok, belok\<close>
      [[1103, 1081, 1094, 1086],
       [1103, 1081, 1094, 1072],
       [1078, 1077, 1083, 1090, 1086, 1082],
       [1073, 1077, 1083, 1086, 1082]]),
     (asc ''fish'',   \<comment> \<open>ryba, losos-, forel-, treska, tunec, skumbrija\<close>
      [[1088, 1099, 1073, 1072],
       [1083, 1086, 1089, 1086, 1089, 1100],
       [1092, 1086, 1088, 1077, 1083, 1100],
       [1090, 1088, 1077, 1089, 1082, 1072],
       [1090, 1091, 1085, 1077, 1094],
       [1089, 1082, 1091, 1084, 1073, 1088, 1080, 1103]]),
     (asc ''shellfish'',   \<comment> \<open>krevetki, krab, omar, midii, ustricy, kal-mar\<close>
      [[1082, 1088, 1077, 1074, 1077, 1090, 1082, 1080],
       [1082, 1088, 1072, 1073],
       [1086, 1084, 1072, 1088],
       [1084, 1080, 1076, 1080, 1080],
       [1091, 1089, 1090, 1088, 1080, 1094, 1099],
       [1082, 1072, 1083, 1100, 1084, 1072, 1088]]),
     (asc ''tree-nuts'',   \<comment> \<open>oreh, mindal-, funduk, kesh-ju, fistashki, pekan\<close>
      [[1086, 1088, 1077, 1093],
       [1084, 1080, 1085, 1076, 1072, 1083, 1100],
       [1092, 1091, 1085, 1076, 1091, 1082],
       [1082, 1077, 1096, 1100, 1102],
       [1092, 1080, 1089, 1090, 1072, 1096, 1082, 1080],
       [1087, 1077, 1082, 1072, 1085]]),
     (asc ''peanuts'',   \<comment> \<open>arahis\<close>
      [[1072, 1088, 1072, 1093, 1080, 1089]]),
     (asc ''wheat'',   \<comment> \<open>muka, pshenica, hleb, makarony, spagetti, bulka\<close>
      [[1084, 1091, 1082, 1072],
       [1087, 1096, 1077, 1085, 1080, 1094, 1072],
       [1093, 1083, 1077, 1073],
       [1084, 1072, 1082, 1072, 1088, 1086, 1085, 1099],
       [1089, 1087, 1072, 1075, 1077, 1090, 1090, 1080],
       [1073, 1091, 1083, 1082, 1072]]),
     (asc ''gluten'',   \<comment> \<open>muka, pshenica, rozh-, jachmen-, oves, hleb, makarony\<close>
      [[1084, 1091, 1082, 1072],
       [1087, 1096, 1077, 1085, 1080, 1094, 1072],
       [1088, 1086, 1078, 1100],
       [1103, 1095, 1084, 1077, 1085, 1100],
       [1086, 1074, 1077, 1089],
       [1093, 1083, 1077, 1073],
       [1084, 1072, 1082, 1072, 1088, 1086, 1085, 1099]]),
     (asc ''soybeans'',   \<comment> \<open>soja, tofu, soevyj\<close>
      [[1089, 1086, 1103],
       [1090, 1086, 1092, 1091],
       [1089, 1086, 1077, 1074, 1099, 1081]]),
     (asc ''sesame'',   \<comment> \<open>kunzhut, tahini\<close>
      [[1082, 1091, 1085, 1078, 1091, 1090],
       [1090, 1072, 1093, 1080, 1085, 1080]]),
     (asc ''celery'',   \<comment> \<open>sel-derej\<close>
      [[1089, 1077, 1083, 1100, 1076, 1077, 1088, 1077, 1081]]),
     (asc ''mustard'',   \<comment> \<open>gorchica\<close>
      [[1075, 1086, 1088, 1095, 1080, 1094, 1072]]),
     (asc ''sulphites'',   \<comment> \<open>vino, uksus\<close>
      [[1074, 1080, 1085, 1086],
       [1091, 1082, 1089, 1091, 1089]])
   ]"

definition ACTION_MAPPING :: "(ustr \<times> ustr) list" where
  "ACTION_MAPPING = [
     ([1076, 1086, 1073, 1072, 1074, 1080, 1090, 1100], asc ''add''),   \<comment> \<open>dobavit-\<close>
     ([1076, 1086, 1073, 1072, 1074, 1100], asc ''add''),   \<comment> \<open>dobav-\<close>
     ([1076, 1086, 1073, 1072, 1074, 1083, 1103, 1077, 1084], asc ''add''),   \<comment> \<open>dobavljaem\<close>
     ([1087, 1086, 1083, 1086, 1078, 1080, 1090, 1100], asc ''add''),   \<comment> \<open>polozhit-\<close>
     ([1089, 1084, 1077, 1096, 1072, 1090, 1100], asc ''mix''),   \<comment> \<open>smeshat-\<close>
     ([1089, 1084, 1077, 1096, 1072, 1081], asc ''mix''),   \<comment> \<open>smeshaj\<close>
     ([1089, 1084, 1077, 1096, 1080, 1074, 1072, 1077, 1084], asc ''mix''),   \<comment> \<open>smeshivaem\<close>
     ([1087, 1077, 1088, 1077, 1084, 1077, 1096, 1072, 1090, 1100], asc ''mix''),   \<comment> \<open>peremeshat-\<close>
     ([1089, 1086, 1077, 1076, 1080, 1085, 1080, 1090, 1100], asc ''combine''),   \<comment> \<open>soedinit-\<close>
     ([1086, 1073, 1098, 1077, 1076, 1080, 1085, 1080, 1090, 1100], asc ''combine''),   \<comment> \<open>ob-edinit-\<close>
     ([1074, 1079, 1073, 1080, 1090, 1100], asc ''blend''),   \<comment> \<open>vzbit-\<close>
     ([1074, 1079, 1073, 1080, 1074, 1072, 1090, 1100], asc ''blend''),   \<comment> \<open>vzbivat-\<close>
     ([1085, 1072, 1088, 1077, 1079, 1072, 1090, 1100], asc ''cut''),   \<comment> \<open>narezat-\<close>
     ([1085, 1072, 1088, 1077, 1078, 1100], asc ''cut''),   \<comment> \<open>narezh-\<close>
     ([1087, 1086, 1088, 1077, 1079, 1072, 1090, 1100], asc ''cut''),   \<comment> \<open>porezat-\<close>
     ([1085, 1072, 1096, 1080, 1085, 1082, 1086, 1074, 1072, 1090, 1100], asc ''slice''),   \<comment> \<open>nashinkovat-\<close>
     ([1085, 1072, 1096, 1080, 1085, 1082, 1091, 1081], asc ''slice''),   \<comment> \<open>nashinkuj\<close>
     ([1080, 1079, 1084, 1077, 1083, 1100, 1095, 1080, 1090, 1100], asc ''mince''),   \<comment> \<open>izmel-chit-\<close>
     ([1080, 1079, 1084, 1077, 1083, 1100, 1095, 1072, 1081], asc ''mince''),   \<comment> \<open>izmel-chaj\<close>
     ([1074, 1072, 1088, 1080, 1090, 1100], asc ''boil''),   \<comment> \<open>varit-\<close>
     ([1089, 1074, 1072, 1088, 1080], asc ''boil''),   \<comment> \<open>svari\<close>
     ([1074, 1089, 1082, 1080, 1087, 1103, 1090, 1080, 1090, 1100], asc ''boil''),   \<comment> \<open>vskipjatit-\<close>
     ([1090, 1091, 1096, 1080, 1090, 1100], asc ''simmer''),   \<comment> \<open>tushit-\<close>
     ([1090, 1091, 1096, 1080], asc ''simmer''),   \<comment> \<open>tushi\<close>
     ([1087, 1088, 1086, 1090, 1091, 1096, 1080, 1090, 1100], asc ''simmer''),   \<comment> \<open>protushit-\<close>
     ([1078, 1072, 1088, 1080, 1090, 1100], asc ''fry''),   \<comment> \<open>zharit-\<close>
     ([1078, 1072, 1088, 1100], asc ''fry''),   \<comment> \<open>zhar-\<close>
     ([1086, 1073, 1078, 1072, 1088, 1080, 1090, 1100], asc ''fry''),   \<comment> \<open>obzharit-\<close>
     ([1087, 1086, 1078, 1072, 1088, 1080, 1090, 1100], asc ''fry''),   \<comment> \<open>pozharit-\<close>
     ([1079, 1072, 1087, 1077, 1082, 1072, 1090, 1100], asc ''bake''),   \<comment> \<open>zapekat-\<close>
     ([1079, 1072, 1087, 1077, 1082, 1080], asc ''bake''),   \<comment> \<open>zapeki\<close>
     ([1074, 1099, 1087, 1077, 1082, 1072, 1090, 1100], asc ''bake''),   \<comment> \<open>vypekat-\<close>
     ([1086, 1093, 1083, 1072, 1076, 1080, 1090, 1100], asc ''cool''),   \<comment> \<open>ohladit-\<close>
     ([1086, 1089, 1090, 1091, 1076, 1080, 1090, 1100], asc ''cool''),   \<comment> \<open>ostudit-\<close>
     ([1079, 1072, 1084, 1077, 1089, 1080, 1090, 1100], asc ''knead''),   \<comment> \<open>zamesit-\<close>
     ([1084, 1077, 1089, 1080, 1090, 1100], asc ''knead''),   \<comment> \<open>mesit-\<close>
     ([1088, 1072, 1089, 1082, 1072, 1090, 1072, 1090, 1100], asc ''roll''),   \<comment> \<open>raskatat-\<close>
     ([1088, 1072, 1089, 1082, 1072, 1090, 1072, 1081], asc ''roll''),   \<comment> \<open>raskataj\<close>
     ([1087, 1088, 1086, 1094, 1077, 1076, 1080, 1090, 1100], asc ''strain''),   \<comment> \<open>procedit-\<close>
     ([1087, 1088, 1086, 1094, 1077, 1076, 1080], asc ''strain''),   \<comment> \<open>procedi\<close>
     ([1085, 1072, 1089, 1090, 1086, 1103, 1090, 1100], asc ''rest''),   \<comment> \<open>nastojat-\<close>
     ([1085, 1072, 1089, 1090, 1072, 1080, 1074, 1072, 1090, 1100], asc ''rest''),   \<comment> \<open>nastaivat-\<close>
     ([1087, 1086, 1076, 1072, 1074, 1072, 1090, 1100], asc ''garnish''),   \<comment> \<open>podavat-\<close>
     ([1087, 1086, 1076, 1072, 1090, 1100], asc ''garnish''),   \<comment> \<open>podat-\<close>
     ([1091, 1082, 1088, 1072, 1089, 1080, 1090, 1100], asc ''garnish'')    \<comment> \<open>ukrasit-\<close>
   ]"

section \<open>Parsed records\<close>

record ParsedIngredient =
  ing_name :: ustr
  ing_amount :: ustr
  ing_value :: rat
  ing_unit :: ustr
  ing_allergens :: "ustr list"
  ing_notes :: ustr

record ParsedStep =
  step_text :: ustr
  step_action :: ustr
  step_time_minutes :: "int option"
  step_temperature_c :: "int option"

section \<open>Ingredient parser\<close>

text \<open>The loop of \<open>_normalize_unit\<close> over \<open>UNIT_MAPPING.items()\<close>: the first key contained wins.\<close>

fun normalize_scan :: "(ustr \<times> ustr \<times> rat) list \<Rightarrow> ustr \<Rightarrow> ustr \<times> rat" where
  "normalize_scan [] unit_lower = (asc ''pcs'', 1)"
| "normalize_scan ((key, standard_unit, multiplier) # rest) unit_lower =
     (if contains key unit_lower then (standard_unit, multiplier)
      else normalize_scan rest unit_lower)"

definition normalize_unit :: "ustr \<Rightarrow> ustr \<times> rat" where
  "normalize_unit unit_str =
     (let unit_lower = strip_chars (\<lambda>c. c = 46) (py_lower unit_str)
      in normalize_scan UNIT_MAPPING unit_lower)"

definition detect_allergens :: "ustr \<Rightarrow> ustr list" where
  "detect_allergens ingredient_name =
     (let name_lower = py_lower ingredient_name
      in map fst (filter (\<lambda>entry. list_ex (\<lambda>keyword. contains keyword name_lower) (snd entry))
                    ALLERGEN_KEYWORDS))"

text \<open>The class \<open>[a-ya A-Ya .]\<close> of the unit token: U+0430..U+044F, U+0410..U+042F and the dot.\<close>

definition rx_unit_char :: rx where
  "rx_unit_char = Sym (\<lambda>c. (1072 \<le> c \<and> c \<le> 1103) \<or> (1040 \<le> c \<and> c \<le> 1071) \<or> c = 46)"

text \<open>\<^verbatim>\<open>(\d+[.,]?\d*)\s*([a-ya A-Ya .]+)?\s+(.+)\<close>\<close>

definition ingredient_pattern :: rx where
  "ingredient_pattern =
     rx_seq [Grp 1 (rx_seq [rx_plus rx_digit, Opt (rx_one_of [46, 44]), Star rx_digit]),
             Star rx_space,
             Opt (Grp 2 (rx_plus rx_unit_char)),
             rx_plus rx_space,
             Grp 3 (rx_plus rx_any)]"

text \<open>The unit assumed when the line has a number and no unit token: \<open>sht\<close> (pieces).\<close>

definition default_unit_str :: ustr where
  "default_unit_str = [1096, 1090]"

definition parse_ingredient_line :: "ustr \<Rightarrow> py_error + ParsedIngredient" where
  "parse_ingredient_line line =
     (case re_match ingredient_pattern line of
        Some m \<Rightarrow>
          (case (match_group (fst m) 1, match_group (fst m) 3) of
             (Some g1, Some g3) \<Rightarrow>
               (let value_str = replace_char 44 46 g1;
                    unit_str = (case match_group (fst m) 2 of
                                  None \<Rightarrow> default_unit_str
                                | Some g2 \<Rightarrow> if g2 = [] then default_unit_str else g2);
                    name = py_strip g3
                in case py_float value_str of
                     Inl e \<Rightarrow> Inl e
                   | Inr v \<Rightarrow>
                       (let (unit, multiplier) = normalize_unit unit_str;
                            val = (if multiplier \<noteq> 1 then v * multiplier else v)
                        in Inr \<lparr>ing_name = name, ing_amount = line, ing_value = val,
                                ing_unit = unit, ing_allergens = detect_allergens name,
                                ing_notes = []\<rparr>))
           | _ \<Rightarrow> Inl AttributeError)
      | None \<Rightarrow>
          (let name = py_strip line
           in Inr \<lparr>ing_name = name, ing_amount = line, ing_value = 0,
                   ing_unit = asc ''to-taste'', ing_allergens = detect_allergens name,
                   ing_notes = []\<rparr>))"

text \<open>\<open>[line.strip() for line in text.split('\n') if line.strip()]\<close>\<close>

definition stripped_lines :: "ustr \<Rightarrow> ustr list" where
  "stripped_lines text = filter (\<lambda>line. line \<noteq> []) (map py_strip (split_on 10 text))"

text \<open>The heading prefixes \<open>ingredient\<close>, \<open>sostav\<close>, \<open>dlja testa\<close>.\<close>

definition ingredient_headings :: "ustr list" where
  "ingredient_headings =
     [[1080, 1085, 1075, 1088, 1077, 1076, 1080, 1077, 1085, 1090],
      [1089, 1086, 1089, 1090, 1072, 1074],
      [1076, 1083, 1103, 32, 1090, 1077, 1089, 1090, 1072]]"

definition is_ingredient_heading :: "ustr \<Rightarrow> bool" where
  "is_ingredient_heading line = list_ex (startswith (py_lower line)) ingredient_headings"

text \<open>\<^verbatim>\<open>^[-*]\s*\<close> with the bullet U+2022 as third member of the class.\<close>

definition bullet_pattern :: rx where
  "bullet_pattern = rx_seq [rx_one_of [45, 8226, 42], Star rx_space]"

text \<open>
  The loop of \<open>parse_ingredients\<close>. \<open>_parse_ingredient_line\<close> returns a dataclass instance,
  which is always true in \<open>if ingredient:\<close>, so every line that reaches it is appended.
\<close>

fun parse_ingredient_lines :: "ustr list \<Rightarrow> py_error + ParsedIngredient list" where
  "parse_ingredient_lines [] = Inr []"
| "parse_ingredient_lines (line # rest) =
     (if is_ingredient_heading line then parse_ingredient_lines rest
      else case parse_ingredient_line (re_sub_prefix bullet_pattern line) of
             Inl e \<Rightarrow> Inl e
           | Inr ingredient \<Rightarrow>
               (case parse_ingredient_lines rest of
                  Inl e \<Rightarrow> Inl e
                | Inr ingredients \<Rightarrow> Inr (ingredient # ingredients)))"

definition parse_ingredients :: "ustr \<Rightarrow> py_error + ParsedIngredient list" where
  "parse_ingredients text = parse_ingredient_lines (stripped_lines text)"

section \<open>Step parser\<close>

fun detect_action_scan :: "(ustr \<times> ustr) list \<Rightarrow> ustr \<Rightarrow> ustr" where
  "detect_action_scan [] text_lower = asc ''prepare''"
| "detect_action_scan ((keyword, action) # rest) text_lower =
     (if contains keyword text_lower then action else detect_action_scan rest text_lower)"

definition detect_action :: "ustr \<Rightarrow> ustr" where
  "detect_action text = detect_action_scan ACTION_MAPPING (py_lower text)"

text \<open>\<open>int(match.group(n))\<close>; \<open>int(None)\<close> raises \<open>TypeError\<close>.\<close>

definition int_group :: "caps \<Rightarrow> nat \<Rightarrow> py_error + int" where
  "int_group g n = (case match_group g n of None \<Rightarrow> Inl TypeError | Some t \<Rightarrow> py_int t)"

text \<open>
  \<open>match.lastindex\<close>: the index of the last group that matched. No group of the source's
  patterns nests in another, so that is the largest index captured.
\<close>

definition lastindex :: "caps \<Rightarrow> nat option" where
  "lastindex g = (if g = [] then None else Some (fold max (map fst g) 0))"

text \<open>
  The patterns of \<open>_extract_time\<close>, in the order of the source's list:
  \<^verbatim>\<open>(\d+)\s*min\<close>, \<^verbatim>\<open>(\d+)\s*chas\<close>, \<^verbatim>\<open>(\d+)-(\d+)\s*min\<close>
  (\<open>min\<close> is U+043C U+0438 U+043D, \<open>chas\<close> is U+0447 U+0430 U+0441). Each is paired with the
  outcome of the source's test \<open>'chas' in pattern\<close> on the pattern's text.
\<close>

definition time_patterns :: "(rx \<times> bool) list" where
  "time_patterns =
     [(rx_seq [Grp 1 (rx_plus rx_digit), Star rx_space, rx_lit [1084, 1080, 1085]], False),
      (rx_seq [Grp 1 (rx_plus rx_digit), Star rx_space, rx_lit [1095, 1072, 1089]], True),
      (rx_seq [Grp 1 (rx_plus rx_digit), rx_chr 45, Grp 2 (rx_plus rx_digit), Star rx_space,
               rx_lit [1084, 1080, 1085]], False)]"

fun extract_time_scan :: "(rx \<times> bool) list \<Rightarrow> ustr \<Rightarrow> py_error + int option" where
  "extract_time_scan [] text = Inr None"
| "extract_time_scan ((pattern, is_hours) # rest) text =
     (case re_search pattern (py_lower text) of
        None \<Rightarrow> extract_time_scan rest text
      | Some m \<Rightarrow>
          if is_hours then
            (case int_group m 1 of Inl e \<Rightarrow> Inl e | Inr h \<Rightarrow> Inr (Some (h * 60)))
          else if lastindex m = Some 2 then
            (case int_group m 1 of
               Inl e \<Rightarrow> Inl e
             | Inr a \<Rightarrow>
                 (case int_group m 2 of Inl e \<Rightarrow> Inl e | Inr b \<Rightarrow> Inr (Some ((a + b) div 2))))
          else
            (case int_group m 1 of Inl e \<Rightarrow> Inl e | Inr a \<Rightarrow> Inr (Some a)))"

definition extract_time :: "ustr \<Rightarrow> py_error + int option" where
  "extract_time text = extract_time_scan time_patterns text"

text \<open>
  The patterns of \<open>_extract_temperature\<close>: \<^verbatim>\<open>(\d+)\s*[oC]\<close> with the degree sign U+00B0 and
  the Cyrillic capital U+0421, \<^verbatim>\<open>(\d+)\s*grad\<close>, \<^verbatim>\<open>pri\s+(\d+)\<close>. The text is searched as
  it is, not lowered.
\<close>

definition temperature_patterns :: "rx list" where
  "temperature_patterns =
     [rx_seq [Grp 1 (rx_plus rx_digit), Star rx_space, rx_one_of [176, 1057]],
      rx_seq [Grp 1 (rx_plus rx_digit), Star rx_space, rx_lit [1075, 1088, 1072, 1076]],
      rx_seq [rx_lit [1087, 1088, 1080], rx_plus rx_space, Grp 1 (rx_plus rx_digit)]]"

fun extract_temperature_scan :: "rx list \<Rightarrow> ustr \<Rightarrow> py_error + int option" where
  "extract_temperature_scan [] text = Inr None"
| "extract_temperature_scan (pattern # rest) text =
     (case re_search pattern text of
        None \<Rightarrow> extract_temperature_scan rest text
      | Some m \<Rightarrow> (case int_group m 1 of Inl e \<Rightarrow> Inl e | Inr t \<Rightarrow> Inr (Some t)))"

definition extract_temperature :: "ustr \<Rightarrow> py_error + int option" where
  "extract_temperature text = extract_temperature_scan temperature_patterns text"

definition parse_step_line :: "ustr \<Rightarrow> py_error + ParsedStep" where
  "parse_step_line line =
     (let action = detect_action line
      in case extract_time line of
           Inl e \<Rightarrow> Inl e
         | Inr time_minutes \<Rightarrow>
             (case extract_temperature line of
                Inl e \<Rightarrow> Inl e
              | Inr temperature_c \<Rightarrow>
                  Inr \<lparr>step_text = line, step_action = action,
                       step_time_minutes = time_minutes,
                       step_temperature_c = temperature_c\<rparr>))"







section \<open>Documents\<close>

text \<open>
  The converter builds and reads plain Python values: dictionaries, lists, strings and
  numbers. A dictionary keeps its keys in insertion order, and assigning to a key that is
  present keeps the key's place, so a dictionary is an association list with \<open>dict_set\<close>.
\<close>

datatype jval =
    JNone
  | JBool bool
  | JInt int
  | JFloat rat
  | JStr ustr
  | JList "jval list"
  | JDict "(ustr \<times> jval) list"

type_synonym dict = "(ustr \<times> jval) list"

definition dict_get :: "dict \<Rightarrow> ustr \<Rightarrow> jval option" where
  "dict_get d k = map_of d k"

definition has_key :: "dict \<Rightarrow> ustr \<Rightarrow> bool" where
  "has_key d k = (map_of d k \<noteq> None)"

fun dict_set :: "ustr \<Rightarrow> jval \<Rightarrow> dict \<Rightarrow> dict" where
  "dict_set k v [] = [(k, v)]"
| "dict_set k v (p # d) = (if fst p = k then (k, v) # d else p # dict_set k v d)"

text \<open>Iterating a value (\<open>for x in v\<close>, \<open>set.update(v)\<close>) and the test \<open>k in v\<close> for a string \<open>k\<close>.\<close>

definition py_iter :: "jval \<Rightarrow> py_error + jval list" where
  "py_iter v =
     (case v of
        JList xs \<Rightarrow> Inr xs
      | JStr s \<Rightarrow> Inr (map (\<lambda>c. JStr [c]) s)
      | JDict d \<Rightarrow> Inr (map (\<lambda>p. JStr (fst p)) d)
      | _ \<Rightarrow> Inl TypeError)"


definition hashable :: "jval \<Rightarrow> bool" where
  "hashable v = (case v of JList _ \<Rightarrow> False | JDict _ \<Rightarrow> False | _ \<Rightarrow> True)"

subsection \<open>What a call of \<open>convert\<close> reads from outside\<close>





subsection \<open>Building the parts\<close>






definition ingredient_to_rcip :: "ParsedIngredient \<Rightarrow> nat \<Rightarrow> dict" where
  "ingredient_to_rcip ing index =
     [(asc ''id'', JStr (asc ''ing-'' @ format_0d 4 index)),
      (asc ''name'', JStr (ing_name ing)),
      (asc ''human_amount'', JStr (ing_amount ing)),
      (asc ''machine_amount'',
         JDict [(asc ''value'', JFloat (ing_value ing)),
                (asc ''unit'', JStr (ing_unit ing)),
                (asc ''approximate'', JBool False)]),
      (asc ''allergens'', JList (map JStr (ing_allergens ing))),
      (asc ''notes'', JStr (ing_notes ing))]"

text \<open>
  \<open>if step.time_minutes:\<close> and \<open>if step.temperature_c:\<close> test the truth of an optional
  integer: \<open>None\<close> and \<open>0\<close> are both false. \<open>if params:\<close> is false for the empty dictionary.
\<close>

definition step_to_rcip :: "ParsedStep \<Rightarrow> nat \<Rightarrow> dict" where
  "step_to_rcip step index =
     (let rcip_step = [(asc ''step_id'', JStr (asc ''s-'' @ format_0d 2 index)),
                       (asc ''human_text'', JStr (step_text step)),
                       (asc ''action'', JStr (step_action step))];
          params = [];
          params = (case step_time_minutes step of
                      None \<Rightarrow> params
                    | Some t \<Rightarrow> if t \<noteq> 0 then dict_set (asc ''time_minutes'') (JInt t) params
                                else params);
          params = (case step_temperature_c step of
                      None \<Rightarrow> params
                    | Some t \<Rightarrow> if t \<noteq> 0 then dict_set (asc ''temperature_c'') (JInt t) params
                                else params)
      in if params \<noteq> [] then dict_set (asc ''params'') (JDict params) rcip_step
         else rcip_step)"

subsection \<open>Diet labels\<close>

text \<open>
  The loop that fills \<open>all_allergens\<close>: \<open>ing.get("allergens", [])\<close> needs a dictionary, and
  \<open>set.update\<close> needs an iterable of hashable values. The set is kept as the list of what
  was added; only membership is read from it.
\<close>

fun collect_allergens :: "jval list \<Rightarrow> jval list \<Rightarrow> py_error + jval list" where
  "collect_allergens [] all_allergens = Inr all_allergens"
| "collect_allergens (ing # rest) all_allergens =
     (case ing of
        JDict d \<Rightarrow>
          (case py_iter (case dict_get d (asc ''allergens'') of None \<Rightarrow> JList [] | Some v \<Rightarrow> v) of
             Inl e \<Rightarrow> Inl e
           | Inr xs \<Rightarrow>
               if list_all hashable xs then collect_allergens rest (all_allergens @ xs)
               else Inl TypeError)
      | _ \<Rightarrow> Inl AttributeError)"

text \<open>
  \<open>_detect_diet_labels\<close>. The source also computes \<open>has_meat\<close> from the tag \<open>fish\<close> and then
  does nothing with it (\<open>pass\<close>): no label depends on it.
\<close>

definition detect_diet_labels :: "jval list \<Rightarrow> py_error + ustr list" where
  "detect_diet_labels ingredients =
     (case collect_allergens ingredients [] of
        Inl e \<Rightarrow> Inl e
      | Inr all_allergens \<Rightarrow>
          Inr ((if JStr (asc ''gluten'') \<notin> set all_allergens \<and> JStr (asc ''wheat'') \<notin> set all_allergens
                then [asc ''gluten-free''] else []) @
               (if JStr (asc ''milk'') \<notin> set all_allergens \<and> JStr (asc ''lactose'') \<notin> set all_allergens
                then [asc ''dairy-free''] else []) @
               (if JStr (asc ''tree-nuts'') \<notin> set all_allergens \<and> JStr (asc ''peanuts'') \<notin> set all_allergens
                then [asc ''nut-free''] else [])))"

subsection \<open>The assembler\<close>


text \<open>\<open>if ingredients_text:\<close> is false for \<open>None\<close> and for the empty text.\<close>

text \<open>
  The two list comprehensions of \<open>convert\<close>:
  \<open>[self._ingredient_to_rcip(ing, i+1) for i, ing in enumerate(parsed_ingredients)]\<close>
  and the same for the steps.
\<close>

definition rcip_ingredients :: "ParsedIngredient list \<Rightarrow> jval list" where
  "rcip_ingredients parsed_ingredients =
     map (\<lambda>(i, ing). JDict (ingredient_to_rcip ing (i + 1))) (enumerate 0 parsed_ingredients)"







subsection \<open>The validator\<close>





section \<open>Schema.org adapter\<close>













section \<open>Reading a document\<close>







text \<open>
  The union of the allergen sets of a list of parsed ingredients, and the labels
  \<open>_detect_diet_labels\<close> derives from such a union.
\<close>

definition allergen_union :: "ParsedIngredient list \<Rightarrow> ustr set" where
  "allergen_union ps = (\<Union>p\<in>set ps. set (ing_allergens p))"

definition labels_of :: "ustr set \<Rightarrow> ustr list" where
  "labels_of u =
     (if asc ''gluten'' \<notin> u \<and> asc ''wheat'' \<notin> u then [asc ''gluten-free''] else []) @
     (if asc ''milk'' \<notin> u \<and> asc ''lactose'' \<notin> u then [asc ''dairy-free''] else []) @
     (if asc ''tree-nuts'' \<notin> u \<and> asc ''peanuts'' \<notin> u then [asc ''nut-free''] else [])"



section \<open>Sample inputs\<close>



definition eggs_line :: ustr where
  "eggs_line = [50, 32, 1103, 1081, 1094, 1072]"

definition boil_line :: ustr where
  "boil_line = [1042, 1072, 1088, 1080, 1090, 1100, 32, 49, 32, 1095, 1072, 1089]"

section \<open>Runs of a pattern\<close>





















lemmas rx_shapes = rx_plus_def rx_digit_def rx_space_def rx_lit_def rx_chr_def rx_one_of_def
  rx_any_def





















lemmas eval_defs = rx_shapes is_digit_def is_space_def re_match_def match_group_def int_group_def
  lastindex_def py_int_def digits_value_def py_lower_def lower_char_def rx_run.simps(6)
  startswith_def py_strip_def strip_chars_def replace_char_def py_float_def asc_def

lemma startswith_set: "startswith s k \<Longrightarrow> set k \<subseteq> set s"
proof -
  assume "startswith s k"
  then have "k = take (length k) s" by (simp add: startswith_def)
  then have "set k = set (take (length k) s)" by simp
  then show ?thesis using set_take_subset[of "length k" s] by simp
qed

lemma contains_set: "contains k s \<Longrightarrow> set k \<subseteq> set s"
proof (induction s)
  case Nil
  then show ?case by simp
next
  case (Cons c s)
  then show ?case using startswith_set[of "c # s" k] by auto
qed

lemma contains_single: "x \<in> set s \<Longrightarrow> contains [x] s"
  by (induction s) (auto simp: startswith_def)

lemma contains_shadow: "contains k s \<Longrightarrow> x \<in> set k \<Longrightarrow> contains [x] s"
  using contains_set contains_single by blast

lemma normalize_scan_shadow:
  "fst (normalize_scan UNIT_MAPPING u) \<noteq> asc ''mg'' \<and>
   fst (normalize_scan UNIT_MAPPING u) \<noteq> asc ''ml'' \<and>
   (contains [1084, 1075] u \<longrightarrow>
      normalize_scan UNIT_MAPPING u \<in> {(asc ''kg'', 1000), (asc ''g'', 1)}) \<and>
   (contains [1084, 1083] u \<or> contains [1084, 1080, 1083, 1083, 1080, 1083, 1080, 1090, 1088] u \<longrightarrow>
      normalize_scan UNIT_MAPPING u \<in> {(asc ''kg'', 1000), (asc ''g'', 1), (asc ''l'', 1000)})"
proof -
  have g: "contains [1084, 1075] u \<Longrightarrow> contains [1075] u"
    using contains_shadow[of "[1084, 1075]" u 1075] by simp
  have l1: "contains [1084, 1083] u \<Longrightarrow> contains [1083] u"
    using contains_shadow[of "[1084, 1083]" u 1083] by simp
  have l2: "contains [1084, 1080, 1083, 1083, 1080, 1083, 1080, 1090, 1088] u \<Longrightarrow> contains [1083] u"
    using contains_shadow[of "[1084, 1080, 1083, 1083, 1080, 1083, 1080, 1090, 1088]" u 1083]
    by simp
  show ?thesis
    using g l1 l2 by (auto simp: UNIT_MAPPING_def asc_def)
qed

section \<open>Diet labels of assembled ingredients\<close>

lemma collect_allergens_rcip:
  "collect_allergens (map (\<lambda>(i, ing). JDict (ingredient_to_rcip ing (i + 1))) xs) acc =
     Inr (acc @ concat (map (\<lambda>(i, ing). map JStr (ing_allergens ing)) xs))"
proof (induction xs arbitrary: acc)
  case Nil
  then show ?case by simp
next
  case (Cons x xs)
  obtain i ing where x: "x = (i, ing)" by (cases x)
  have k: "dict_get (ingredient_to_rcip ing (i + 1)) (asc ''allergens'') =
       Some (JList (map JStr (ing_allergens ing)))"
    by (simp add: ingredient_to_rcip_def dict_get_def asc_def)
  have h: "list_all hashable (map JStr (ing_allergens ing))"
    by (simp add: list_all_iff hashable_def)
  show ?case using Cons.IH x k h by (simp add: py_iter_def)
qed

lemma collected_member:
  "JStr x \<in> set (concat (map (\<lambda>(i, ing). map JStr (ing_allergens ing)) (enumerate n ps))) \<longleftrightarrow>
     x \<in> (\<Union>p\<in>set ps. set (ing_allergens p))"
proof (induction ps arbitrary: n)
  case Nil
  then show ?case by simp
next
  case (Cons p ps)
  then show ?case by (simp add: enumerate_simps) blast
qed

lemma detect_diet_labels_rcip:
  "detect_diet_labels (rcip_ingredients ps) = Inr (labels_of (allergen_union ps))"
proof -
  let ?U = "concat (map (\<lambda>(i, ing). map JStr (ing_allergens ing)) (enumerate 0 ps))"
  have c: "collect_allergens (rcip_ingredients ps) [] = Inr ?U"
    unfolding rcip_ingredients_def collect_allergens_rcip by simp
  have m: "\<And>x. (JStr x \<in> set ?U) = (x \<in> allergen_union ps)"
    unfolding allergen_union_def by (rule collected_member)
  show ?thesis
    unfolding detect_diet_labels_def c labels_of_def by (simp only: m sum.case)
qed

section \<open>The assembled document\<close>














lemma has_key_if: "has_key (if c then a else b) k = (if c then has_key a k else has_key b k)"
  by simp





















section \<open>Lines that match nothing, and evaluation helpers\<close>








text \<open>
  Two more lines, evaluated: \<open>2 st.l. sahara\<close> (two tablespoons of sugar), whose unit token
  contains the key for liters, and \<open>Varit' 1 chas\<close>.
\<close>

lemma tablespoons_read_as_liters:
  "parse_ingredient_line
     [50, 32, 1089, 1090, 46, 1083, 46, 32, 1089, 1072, 1093, 1072, 1088, 1072] =
     Inr \<lparr>ing_name = [1089, 1072, 1093, 1072, 1088, 1072],
          ing_amount = [50, 32, 1089, 1090, 46, 1083, 46, 32, 1089, 1072, 1093, 1072, 1088, 1072],
          ing_value = 2000, ing_unit = asc ''l'', ing_allergens = [], ing_notes = []\<rparr>"
  by (simp add: parse_ingredient_line_def ingredient_pattern_def rx_unit_char_def
      default_unit_str_def normalize_unit_def UNIT_MAPPING_def detect_allergens_def
      ALLERGEN_KEYWORDS_def Let_def eval_defs)

lemma extract_time_hour: "extract_time boil_line = Inr (Some 60)"
  by (simp add: boil_line_def extract_time_def time_patterns_def eval_defs)

section \<open>The claims\<close>

subsection \<open>Units and quantities\<close>

text \<open>
  C1. The claim: a line \<open><number><unit> <name>\<close> whose unit has a multiplier other than 1
  stores \<open>number * multiplier\<close> and the multiplier's base unit, so that 2 kilograms become
  quantity 2000 with unit \<open>g\<close>.

  The code multiplies and keeps the unit of the lexicon entry: the line \<open>2 kg sahara\<close>
  (U+0032 U+0020 U+043A U+0433 U+0020 and the word for sugar) is parsed to quantity 2000
  with unit \<open>kg\<close>.
\<close>

theorem parse_2kg_keeps_kg:
  "parse_ingredients [50, 32, 1082, 1075, 32, 1089, 1072, 1093, 1072, 1088, 1072] =
     Inr [\<lparr>ing_name = [1089, 1072, 1093, 1072, 1088, 1072],
           ing_amount = [50, 32, 1082, 1075, 32, 1089, 1072, 1093, 1072, 1088, 1072],
           ing_value = 2000, ing_unit = asc ''kg'', ing_allergens = [], ing_notes = []\<rparr>]"
  by (simp add: parse_ingredients_def stripped_lines_def is_ingredient_heading_def
      ingredient_headings_def re_sub_prefix_def bullet_pattern_def parse_ingredient_line_def
      ingredient_pattern_def rx_unit_char_def default_unit_str_def normalize_unit_def
      UNIT_MAPPING_def detect_allergens_def ALLERGEN_KEYWORDS_def Let_def eval_defs)

text \<open>
  C10. Unit normalization never returns the codes \<open>mg\<close> and \<open>ml\<close>, for any unit token: a
  token that contains the key for milligrams (U+043C U+0433) contains the earlier key
  U+0433 and is normalized to an entry at or before it (\<open>kg\<close> or \<open>g\<close>); a token that
  contains a key for milliliters (U+043C U+043B, or the long form) contains the earlier key
  U+043B and is normalized to \<open>kg\<close>, \<open>g\<close> or \<open>l\<close>.
\<close>

theorem normalize_unit_never_mg_ml:
  "fst (normalize_unit unit_str) \<noteq> asc ''mg'' \<and>
   fst (normalize_unit unit_str) \<noteq> asc ''ml'' \<and>
   (contains [1084, 1075] (strip_chars (\<lambda>c. c = 46) (py_lower unit_str)) \<longrightarrow>
      normalize_unit unit_str \<in> {(asc ''kg'', 1000), (asc ''g'', 1)}) \<and>
   (contains [1084, 1083] (strip_chars (\<lambda>c. c = 46) (py_lower unit_str)) \<or>
    contains [1084, 1080, 1083, 1083, 1080, 1083, 1080, 1090, 1088]
      (strip_chars (\<lambda>c. c = 46) (py_lower unit_str)) \<longrightarrow>
      normalize_unit unit_str \<in> {(asc ''kg'', 1000), (asc ''g'', 1), (asc ''l'', 1000)})"
  unfolding normalize_unit_def Let_def by (rule normalize_scan_shadow)

text \<open>The tokens for milligrams and, in capitals, for milliliters.\<close>

theorem normalize_unit_never_mg_ml_witness:
  "normalize_unit [1084, 1075] = (asc ''g'', 1) \<and>
   normalize_unit [1052, 1051] = (asc ''l'', 1000) \<and>
   fst (normalize_unit [1084, 1075]) \<noteq> asc ''mg'' \<and>
   fst (normalize_unit [1052, 1051]) \<noteq> asc ''ml''"
  using normalize_unit_never_mg_ml[of "[1084, 1075]"] normalize_unit_never_mg_ml[of "[1052, 1051]"]
  by (simp add: normalize_unit_def UNIT_MAPPING_def eval_defs)

subsection \<open>Steps\<close>

text \<open>
  C2. The claim: time extraction reduces a range to the floor of the average of its
  endpoints, so that a step that bakes for 20-30 minutes has \<open>timeMinutes = 25\<close>.

  The code tries the single-number minutes pattern first, and that pattern matches inside
  the range: for the line \<open>Zapekat' 20-30 minut\<close> it finds \<open>30 min\<close> and the result is 30.
\<close>

theorem extract_time_range_takes_upper:
  "extract_time [1047, 1072, 1087, 1077, 1082, 1072, 1090, 1100, 32, 50, 48, 45, 51, 48, 32,
                 1084, 1080, 1085, 1091, 1090] = Inr (Some 30)"
  by (simp add: extract_time_def time_patterns_def eval_defs)

text \<open>
  C9. In the assembled step record a time or a temperature of 0 is left out exactly as an
  absent one is, and a step with neither carries no \<open>params\<close> entry: it has the three
  entries \<open>step_id\<close>, \<open>human_text\<close> and \<open>action\<close> only.
\<close>

theorem step_to_rcip_zero_is_absent:
  "step_to_rcip (s\<lparr>step_time_minutes := Some 0\<rparr>) i = step_to_rcip (s\<lparr>step_time_minutes := None\<rparr>) i \<and>
   step_to_rcip (s\<lparr>step_temperature_c := Some 0\<rparr>) i =
     step_to_rcip (s\<lparr>step_temperature_c := None\<rparr>) i \<and>
   ((step_time_minutes s = None \<or> step_time_minutes s = Some 0) \<and>
    (step_temperature_c s = None \<or> step_temperature_c s = Some 0) \<longrightarrow>
      \<not> has_key (step_to_rcip s i) (asc ''params'') \<and>
      step_to_rcip s i =
        [(asc ''step_id'', JStr (asc ''s-'' @ format_0d 2 i)),
         (asc ''human_text'', JStr (step_text s)),
         (asc ''action'', JStr (step_action s))])"
  by (auto simp: step_to_rcip_def has_key_def asc_def)

text \<open>A step that boils for 0 minutes: the time is extracted as 0 and the record has no \<open>params\<close>.\<close>

theorem step_to_rcip_zero_is_absent_witness:
  "parse_step_line [1042, 1072, 1088, 1080, 1090, 1100, 32, 48, 32, 1084, 1080, 1085] =
     Inr \<lparr>step_text = [1042, 1072, 1088, 1080, 1090, 1100, 32, 48, 32, 1084, 1080, 1085],
          step_action = asc ''boil'', step_time_minutes = Some 0, step_temperature_c = None\<rparr> \<and>
   step_to_rcip
     \<lparr>step_text = [1042, 1072, 1088, 1080, 1090, 1100, 32, 48, 32, 1084, 1080, 1085],
      step_action = asc ''boil'', step_time_minutes = Some 0, step_temperature_c = None\<rparr> 1 =
     [(asc ''step_id'', JStr (asc ''s-01'')),
      (asc ''human_text'', JStr [1042, 1072, 1088, 1080, 1090, 1100, 32, 48, 32, 1084, 1080, 1085]),
      (asc ''action'', JStr (asc ''boil''))]"
  using step_to_rcip_zero_is_absent
    [of "\<lparr>step_text = [1042, 1072, 1088, 1080, 1090, 1100, 32, 48, 32, 1084, 1080, 1085],
          step_action = asc ''boil'', step_time_minutes = Some 0, step_temperature_c = None\<rparr>" 1]
  by (simp add: parse_step_line_def detect_action_def ACTION_MAPPING_def extract_time_def
      time_patterns_def extract_temperature_def temperature_patterns_def format_0d_def
      decimal.simps step_to_rcip_def has_key_def eval_defs)

subsection \<open>Diet labels\<close>

text \<open>
  C3. For every list of parsed ingredients, the diet labels derived from the assembled
  ingredient records hold \<open>gluten-free\<close> iff neither \<open>gluten\<close> nor \<open>wheat\<close> is in the union of
  the ingredients' allergen sets, \<open>dairy-free\<close> iff neither \<open>milk\<close> nor \<open>lactose\<close> is,
  \<open>nut-free\<close> iff neither \<open>tree-nuts\<close> nor \<open>peanuts\<close> is, and never \<open>vegetarian\<close> or \<open>vegan\<close>.
\<close>

theorem diet_labels_from_allergens:
  "\<exists>labels. detect_diet_labels (rcip_ingredients ps) = Inr labels \<and>
     (asc ''gluten-free'' \<in> set labels \<longleftrightarrow>
        asc ''gluten'' \<notin> allergen_union ps \<and> asc ''wheat'' \<notin> allergen_union ps) \<and>
     (asc ''dairy-free'' \<in> set labels \<longleftrightarrow>
        asc ''milk'' \<notin> allergen_union ps \<and> asc ''lactose'' \<notin> allergen_union ps) \<and>
     (asc ''nut-free'' \<in> set labels \<longleftrightarrow>
        asc ''tree-nuts'' \<notin> allergen_union ps \<and> asc ''peanuts'' \<notin> allergen_union ps) \<and>
     asc ''vegetarian'' \<notin> set labels \<and> asc ''vegan'' \<notin> set labels"
  by (simp add: detect_diet_labels_rcip labels_of_def asc_def)

text \<open>An ingredient tagged with eggs and wheat: the labels are \<open>dairy-free\<close> and \<open>nut-free\<close>.\<close>

theorem diet_labels_from_allergens_witness:
  "detect_diet_labels
     (rcip_ingredients
        [\<lparr>ing_name = [1103, 1081, 1094, 1072], ing_amount = eggs_line, ing_value = 2,
          ing_unit = asc ''pcs'', ing_allergens = [asc ''eggs'', asc ''wheat''], ing_notes = []\<rparr>]) =
   Inr [asc ''dairy-free'', asc ''nut-free'']"
  using diet_labels_from_allergens
    [of "[\<lparr>ing_name = [1103, 1081, 1094, 1072], ing_amount = eggs_line, ing_value = 2,
          ing_unit = asc ''pcs'', ing_allergens = [asc ''eggs'', asc ''wheat''], ing_notes = []\<rparr>]"]
  by (simp add: detect_diet_labels_rcip labels_of_def allergen_union_def asc_def)


subsection \<open>Parsing every line\<close>




subsection \<open>The assembled document\<close>










subsection \<open>The Schema.org adapter\<close>



end
